theory Spec2Isabelle
  imports Complex_Main
begin

section \<open>Python values that flow through the quiz application\<close>

text \<open>
  The question records of the application are the dictionaries that \<^verbatim>\<open>json.loads\<close> returns,
  so a question is a JSON value. A Python \<^verbatim>\<open>str\<close> is modelled as a \<^typ>\<open>string\<close> (its
  characters are the code points below 256), a \<^verbatim>\<open>dict\<close> with string keys as an
  association list with distinct keys, in insertion order. The four float values are the ones
  Python compares: a finite number and the three constants \<^verbatim>\<open>Infinity\<close>, \<^verbatim>\<open>-Infinity\<close>
  and \<^verbatim>\<open>NaN\<close> of the \<^verbatim>\<open>json\<close> module (each of them one shared object).
\<close>

datatype pyfloat = Finite rat | PosInf | NegInf | NaN

datatype json =
    JNull
  | JBool bool
  | JInt int
  | JFloat pyfloat
  | JStr string
  | JList "json list"
  | JDict "(string \<times> json) list"

datatype error =
  KeyError | TypeError | ValueError | JSONDecodeError | UnboundLocalError | OtherException

text \<open>Truth value of an object, as \<^verbatim>\<open>if not x\<close> tests it.\<close>

fun py_truthy :: "json \<Rightarrow> bool" where
  "py_truthy JNull = False"
| "py_truthy (JBool b) = b"
| "py_truthy (JInt n) = (n \<noteq> 0)"
| "py_truthy (JFloat f) = (f \<noteq> Finite 0)"
| "py_truthy (JStr s) = (s \<noteq> [])"
| "py_truthy (JList xs) = (xs \<noteq> [])"
| "py_truthy (JDict d) = (d \<noteq> [])"

text \<open>The numeric value of a number; \<^verbatim>\<open>bool\<close> is a subclass of \<^verbatim>\<open>int\<close>.\<close>

fun num_val :: "json \<Rightarrow> pyfloat option" where
  "num_val (JBool b) = Some (Finite (if b then 1 else 0))"
| "num_val (JInt n) = Some (Finite (of_int n))"
| "num_val (JFloat f) = Some f"
| "num_val _ = None"

text \<open>
  The comparison that \<^verbatim>\<open>x in some_list\<close> and the comparison of containers apply to two
  items: \<^verbatim>\<open>x is y or x == y\<close>. Numbers are equal by value across \<^verbatim>\<open>bool\<close>,
  \<^verbatim>\<open>int\<close> and \<^verbatim>\<open>float\<close>, lists item by item, dictionaries key by key. The
  \<^verbatim>\<open>NaN\<close> of the \<^verbatim>\<open>json\<close> module is identical to itself, although it is not
  \<^verbatim>\<open>==\<close> to itself.
\<close>

fun py_same_or_equal :: "json \<Rightarrow> json \<Rightarrow> bool" where
  "py_same_or_equal (JList xs) (JList ys) = list_all2 py_same_or_equal xs ys"
| "py_same_or_equal (JDict xs) (JDict ys) =
     (length xs = length ys \<and>
      list_all (\<lambda>kv. case map_of ys (fst kv) of
                        None \<Rightarrow> False
                      | Some w \<Rightarrow> py_same_or_equal (snd kv) w) xs)"
| "py_same_or_equal a b =
     (case (num_val a, num_val b) of
        (Some x, Some y) \<Rightarrow> x = y
      | _ \<Rightarrow> a = b)"

text \<open>
  Python's \<^verbatim>\<open>==\<close> on JSON values: \<^verbatim>\<open>NaN\<close> is equal to nothing, not even to itself;
  the items of two containers are compared as above.
\<close>

fun py_eq :: "json \<Rightarrow> json \<Rightarrow> bool" where
  "py_eq (JFloat NaN) b = False"
| "py_eq a (JFloat NaN) = False"
| "py_eq a b = py_same_or_equal a b"

text \<open>\<^verbatim>\<open>q[key]\<close> for a string key: only a dictionary can be subscripted by a string.\<close>

fun py_getitem :: "json \<Rightarrow> string \<Rightarrow> error + json" where
  "py_getitem (JDict d) k = (case map_of d k of None \<Rightarrow> Inl KeyError | Some v \<Rightarrow> Inr v)"
| "py_getitem _ k = Inl TypeError"

section \<open>quiz\_logic.py: the quiz session\<close>

text \<open>The dictionary \<^verbatim>\<open>submit_answer\<close> appends to \<^verbatim>\<open>user_answers\<close>; its six keys are fixed by the code.\<close>

record answer_entry =
  question :: json
  options :: json
  chosen_answer :: string
  correct_answer :: json
  is_correct :: bool
  explanation :: json

record quiz_manager =
  questions :: "json list"
  current_question_index :: int
  user_answers :: "answer_entry list"
  score :: int
  quiz_started :: bool

definition QuizManager_init :: quiz_manager where
  "QuizManager_init =
     \<lparr>questions = [], current_question_index = 0, user_answers = [], score = 0,
      quiz_started = False\<rparr>"

definition load_questions :: "json list \<Rightarrow> quiz_manager \<Rightarrow> quiz_manager" where
  "load_questions questions_data self =
     self\<lparr>questions := questions_data, current_question_index := 0, user_answers := [],
          score := 0, quiz_started := True\<rparr>"

text \<open>Python's \<^verbatim>\<open>None\<close> is the value \<^term>\<open>JNull\<close>.\<close>

definition get_current_question :: "quiz_manager \<Rightarrow> json" where
  "get_current_question self =
     (if 0 \<le> current_question_index self
         \<and> current_question_index self < int (length (questions self))
      then questions self ! nat (current_question_index self)
      else JNull)"

text \<open>
  \<^verbatim>\<open>submit_answer\<close> returns its result, or the exception it raised, together with the
  session as the call left it: the score is incremented before the answer entry is built, so
  a \<^verbatim>\<open>KeyError\<close> raised while building the entry leaves the incremented score behind.
\<close>

definition submit_answer ::
  "string \<Rightarrow> quiz_manager \<Rightarrow> (error + json \<times> json) \<times> quiz_manager" where
  "submit_answer chosen_option self =
     (if questions self = [] then (Inr (JNull, JNull), self)
      else
        (let current_q = get_current_question self in
         if \<not> py_truthy current_q then (Inr (JNull, JNull), self)
         else
           (case py_getitem current_q ''correct_answer'' of
              Inl e \<Rightarrow> (Inl e, self)
            | Inr correct \<Rightarrow>
               (let is_c = py_eq (JStr chosen_option) correct;
                    self1 = (if is_c then self\<lparr>score := score self + 1\<rparr> else self)
                in
                 (case py_getitem current_q ''question'' of
                    Inl e \<Rightarrow> (Inl e, self1)
                  | Inr q_text \<Rightarrow>
                     (case py_getitem current_q ''options'' of
                        Inl e \<Rightarrow> (Inl e, self1)
                      | Inr q_options \<Rightarrow>
                         (case py_getitem current_q ''explanation'' of
                            Inl e \<Rightarrow> (Inl e, self1)
                          | Inr q_explanation \<Rightarrow>
                             (Inr (JBool is_c, q_explanation),
                              self1\<lparr>user_answers := user_answers self1 @
                                       [\<lparr>question = q_text, options = q_options,
                                         chosen_answer = chosen_option,
                                         correct_answer = correct,
                                         is_correct = is_c,
                                         explanation = q_explanation\<rparr>],
                                     current_question_index :=
                                       current_question_index self1 + 1\<rparr>))))))))"

definition is_quiz_finished :: "quiz_manager \<Rightarrow> bool" where
  "is_quiz_finished self = (current_question_index self \<ge> int (length (questions self)))"

definition get_score_summary :: "quiz_manager \<Rightarrow> int \<times> int \<times> int" where
  "get_score_summary self =
     (let total_questions = int (length (questions self));
          correct_count = score self;
          incorrect_count = total_questions - score self
      in (total_questions, correct_count, incorrect_count))"

definition reset_quiz :: "quiz_manager \<Rightarrow> quiz_manager" where
  "reset_quiz self =
     self\<lparr>questions := [], current_question_index := 0, user_answers := [], score := 0,
          quiz_started := False\<rparr>"

text \<open>The sessions that calls of the three mutating methods can produce from a new one.\<close>

inductive reachable :: "quiz_manager \<Rightarrow> bool" where
  reachable_init: "reachable QuizManager_init"
| reachable_load: "reachable s \<Longrightarrow> reachable (load_questions qs s)"
| reachable_submit: "reachable s \<Longrightarrow> reachable (snd (submit_answer c s))"
| reachable_reset: "reachable s \<Longrightarrow> reachable (reset_quiz s)"

text \<open>A question record in the sense of the data model: a dictionary with the four fields.\<close>

definition required_fields :: "string list" where
  "required_fields = [''question'', ''options'', ''correct_answer'', ''explanation'']"

fun has_required_fields :: "json \<Rightarrow> bool" where
  "has_required_fields (JDict d) = list_all (\<lambda>k. k \<in> set (map fst d)) required_fields"
| "has_required_fields _ = False"

section \<open>The two regular expressions of llm\_service.py\<close>

text \<open>
  The patterns use literal characters, \<^verbatim>\<open>.\<close> under \<^verbatim>\<open>re.DOTALL\<close> (any character),
  \<^verbatim>\<open>\s\<close>, concatenation and the greedy star. \<^term>\<open>Eps\<close> is the empty pattern that ends a
  concatenation.
\<close>

datatype regex = Eps | Lit char | AnyChar | Whitespace | Seq regex regex | Star regex

text \<open>\<^verbatim>\<open>\s\<close> on a \<^verbatim>\<open>str\<close> pattern: the Unicode whitespace below code point 256.\<close>

definition py_isspace :: "char \<Rightarrow> bool" where
  "py_isspace c =
     (let n = (of_char c :: nat)
      in (9 \<le> n \<and> n \<le> 13) \<or> (28 \<le> n \<and> n \<le> 32) \<or> n = 133 \<or> n = 160)"

text \<open>
  The backtracking matcher: \<^term>\<open>rmatch r s\<close> lists what is left of \<^term>\<open>s\<close> after each
  way of matching \<^term>\<open>r\<close> at its start, in the order in which backtracking tries them
  (a greedy star tries one more iteration before it tries to stop). An iteration of a star that
  consumes nothing is not repeated; the bodies of the stars in the two patterns always consume
  a character.
\<close>

fun rmatch :: "regex \<Rightarrow> string \<Rightarrow> string list" where
  "rmatch Eps s = [s]"
| "rmatch (Lit c) s = (case s of [] \<Rightarrow> [] | x # xs \<Rightarrow> if x = c then [xs] else [])"
| "rmatch AnyChar s = (case s of [] \<Rightarrow> [] | x # xs \<Rightarrow> [xs])"
| "rmatch Whitespace s = (case s of [] \<Rightarrow> [] | x # xs \<Rightarrow> if py_isspace x then [xs] else [])"
| "rmatch (Seq a b) s = concat (map (rmatch b) (rmatch a s))"
| "rmatch (Star a) s =
     concat (map (\<lambda>t. if length t < length s then rmatch (Star a) t else []) (rmatch a s)) @ [s]"

text \<open>
  \<^verbatim>\<open>re.search(r, s)\<close>: the first match at the leftmost position that has one;
  the result is \<^verbatim>\<open>group(0)\<close>, or \<^term>\<open>None\<close> when nothing matches.
\<close>

fun re_search :: "regex \<Rightarrow> string \<Rightarrow> string option" where
  "re_search r [] = (case rmatch r [] of [] \<Rightarrow> None | t # _ \<Rightarrow> Some [])"
| "re_search r (c # cs) =
     (case rmatch r (c # cs) of
        [] \<Rightarrow> re_search r cs
      | t # _ \<Rightarrow> Some (take (length (c # cs) - length t) (c # cs)))"

text \<open>
  \<^verbatim>\<open>re.sub(r, repl, s)\<close> for a pattern that matches no empty string: every match, leftmost
  first and not overlapping, is replaced by \<^term>\<open>repl\<close>.
\<close>

function re_sub :: "regex \<Rightarrow> string \<Rightarrow> string \<Rightarrow> string" where
  "re_sub r repl [] = []"
| "re_sub r repl (c # cs) =
     (case rmatch r (c # cs) of
        [] \<Rightarrow> c # re_sub r repl cs
      | t # _ \<Rightarrow> if length t < length (c # cs) then repl @ re_sub r repl t
                 else c # re_sub r repl cs)"
  by pat_completeness auto
termination
  by (relation "measure (\<lambda>(r, repl, s). length s)") auto

text \<open>The pattern \<^verbatim>\<open>\[\s*{.*}\s*(?:,\s*{.*}\s*)*\]\<close>.\<close>

definition array_pattern :: regex where
  "array_pattern =
     foldr Seq
       [Lit CHR ''['', Star Whitespace, Lit CHR ''{'', Star AnyChar, Lit CHR ''}'',
        Star Whitespace,
        Star (foldr Seq [Lit CHR '','', Star Whitespace, Lit CHR ''{'', Star AnyChar,
                         Lit CHR ''}'', Star Whitespace] Eps),
        Lit CHR '']''] Eps"

text \<open>The pattern \<^verbatim>\<open>,\s*\]\<close>.\<close>

definition trailing_comma_pattern :: regex where
  "trailing_comma_pattern = foldr Seq [Lit CHR '','', Star Whitespace, Lit CHR '']''] Eps"

section \<open>llm\_service.py: the question provider\<close>

text \<open>
  \<^verbatim>\<open>len(x)\<close>, \<^verbatim>\<open>x[:n]\<close> and iteration over \<^verbatim>\<open>x\<close>, for what \<^verbatim>\<open>json.loads\<close> may
  return. The text handed to \<^verbatim>\<open>json.loads\<close> starts with a bracket, so Python's parser
  returns a list or raises; the other cases keep the model total for any parser.
\<close>

fun py_len :: "json \<Rightarrow> error + int" where
  "py_len (JList xs) = Inr (int (length xs))"
| "py_len (JStr s) = Inr (int (length s))"
| "py_len (JDict d) = Inr (int (length d))"
| "py_len _ = Inl TypeError"

definition slice_to :: "'a list \<Rightarrow> int \<Rightarrow> 'a list" where
  "slice_to xs n = take (if n < 0 then nat (int (length xs) + n) else nat n) xs"

fun py_slice_to :: "json \<Rightarrow> int \<Rightarrow> error + json" where
  "py_slice_to (JList xs) n = Inr (JList (slice_to xs n))"
| "py_slice_to (JStr s) n = Inr (JStr (slice_to s n))"
| "py_slice_to _ n = Inl TypeError"

fun py_iter :: "json \<Rightarrow> error + json list" where
  "py_iter (JList xs) = Inr xs"
| "py_iter (JStr s) = Inr (map (\<lambda>c. JStr [c]) s)"
| "py_iter (JDict d) = Inr (map (\<lambda>kv. JStr (fst kv)) d)"
| "py_iter _ = Inl TypeError"

fun is_substring :: "string \<Rightarrow> string \<Rightarrow> bool" where
  "is_substring k [] = (k = [])"
| "is_substring k (c # cs) = (take (length k) (c # cs) = k \<or> is_substring k cs)"

text \<open>\<^verbatim>\<open>field in q\<close> for a string \<^verbatim>\<open>field\<close>.\<close>

fun py_str_in :: "string \<Rightarrow> json \<Rightarrow> error + bool" where
  "py_str_in k (JDict d) = Inr (k \<in> set (map fst d))"
| "py_str_in k (JList xs) = Inr (list_ex (\<lambda>x. py_same_or_equal x (JStr k)) xs)"
| "py_str_in k (JStr s) = Inr (is_substring k s)"
| "py_str_in k _ = Inl TypeError"

text \<open>\<^verbatim>\<open>all(field in q for field in fields)\<close>, which stops at the first field that is missing.\<close>

fun all_fields_in :: "string list \<Rightarrow> json \<Rightarrow> error + bool" where
  "all_fields_in [] q = Inr True"
| "all_fields_in (f # fs) q =
     (case py_str_in f q of
        Inl e \<Rightarrow> Inl e
      | Inr b \<Rightarrow> if b then all_fields_in fs q else Inr False)"

text \<open>
  The body of the \<^verbatim>\<open>try\<close> inside the validation loop (the last test is
  \<^verbatim>\<open>q['correct_answer'] in q['options']\<close>): \<^term>\<open>Inr True\<close> when the record
  is appended, \<^term>\<open>Inr False\<close> when one of the three warnings is printed, \<^term>\<open>Inl e\<close> when
  an exception reaches the \<^verbatim>\<open>except\<close> of the loop.
\<close>

definition validate_question :: "json \<Rightarrow> error + bool" where
  "validate_question q =
     (case all_fields_in required_fields q of
        Inl e \<Rightarrow> Inl e
      | Inr has_all \<Rightarrow>
         (if has_all then
            (case py_getitem q ''options'' of
               Inl e \<Rightarrow> Inl e
             | Inr q_options \<Rightarrow>
                (case q_options of
                   JList os \<Rightarrow>
                     (if length os = 4 then
                        (case py_getitem q ''correct_answer'' of
                           Inl e \<Rightarrow> Inl e
                         | Inr correct \<Rightarrow>
                             Inr (list_ex (\<lambda>x. py_same_or_equal x correct) os))
                      else Inr False)
                 | _ \<Rightarrow> Inr False))
          else Inr False))"

fun validate_loop :: "json list \<Rightarrow> json list \<Rightarrow> json list" where
  "validate_loop validated_questions [] = validated_questions"
| "validate_loop validated_questions (q # qs) =
     validate_loop
       (if validate_question q = Inr True then validated_questions @ [q]
        else validated_questions) qs"

text \<open>
  The \<^verbatim>\<open>try\<close> block of \<^verbatim>\<open>generate_quiz_questions\<close> from the point where
  \<^verbatim>\<open>raw_response_text\<close> is bound. \<^term>\<open>loads\<close> is \<^verbatim>\<open>json.loads\<close>, a parameter of
  the model; it returns \<^term>\<open>Inl e\<close> when it raises. Slicing a dictionary raises
  (\<^verbatim>\<open>TypeError\<close> or \<^verbatim>\<open>KeyError\<close>, depending on the Python version).
\<close>

definition parse_response ::
  "(string \<Rightarrow> error + json) \<Rightarrow> string \<Rightarrow> int \<Rightarrow> error + json list" where
  "parse_response loads raw_response_text num_questions =
     (case re_search array_pattern raw_response_text of
        None \<Rightarrow> Inr []
      | Some json_match \<Rightarrow>
         (let json_string = re_sub trailing_comma_pattern '']'' json_match in
          (case loads json_string of
             Inl e \<Rightarrow> Inl e
           | Inr questions_data \<Rightarrow>
              (case py_len questions_data of
                 Inl e \<Rightarrow> Inl e
               | Inr n \<Rightarrow>
                  (case (if n \<noteq> num_questions \<and> n > num_questions
                         then py_slice_to questions_data num_questions
                         else Inr questions_data) of
                     Inl e \<Rightarrow> Inl e
                   | Inr questions_data' \<Rightarrow>
                      (case py_iter questions_data' of
                         Inl e \<Rightarrow> Inl e
                       | Inr items \<Rightarrow> Inr (validate_loop [] items)))))))"

text \<open>
  \<^verbatim>\<open>generate_quiz_questions\<close>: the model call, the rest of the \<^verbatim>\<open>try\<close> block, and
  the two handlers. \<^term>\<open>llm topic num_questions\<close> is the text the model returns for the
  prompt built from the topic and the count, or \<^term>\<open>Inl e\<close> when the call raises; building
  the prompt, before the \<^verbatim>\<open>try\<close>, does not raise for a string topic and an integer
  count. Both handlers return the empty list, but the handler of \<^verbatim>\<open>JSONDecodeError\<close>
  first prints \<^verbatim>\<open>raw_response_text\<close>, which is unbound when it was the model call that
  raised this exception.
\<close>

definition generate_quiz_questions ::
  "(string \<Rightarrow> int \<Rightarrow> error + string) \<Rightarrow> (string \<Rightarrow> error + json) \<Rightarrow> string \<Rightarrow> int
     \<Rightarrow> error + json list" where
  "generate_quiz_questions llm loads topic num_questions =
     (case llm topic num_questions of
        Inl e \<Rightarrow> (if e = JSONDecodeError then Inl UnboundLocalError else Inr [])
      | Inr raw_response_text \<Rightarrow>
         (case parse_response loads raw_response_text num_questions of
            Inl JSONDecodeError \<Rightarrow> Inr []
          | Inl _ \<Rightarrow> Inr []
          | Inr validated_questions \<Rightarrow> Inr validated_questions))"

text \<open>
  The valid QuestionRecord of the specification's data model, in the words of the
  specification (the code is compared with it): the four fields are present, the question is
  a non-empty text, the options are exactly four distinct non-empty texts, the correct answer
  is a text equal to exactly one option, the explanation is a text.
\<close>

fun is_nonempty_text :: "json \<Rightarrow> bool" where
  "is_nonempty_text (JStr s) = (s \<noteq> [])"
| "is_nonempty_text _ = False"

fun is_text :: "json \<Rightarrow> bool" where
  "is_text (JStr s) = True"
| "is_text _ = False"

definition spec_QuestionRecord :: "json \<Rightarrow> bool" where
  "spec_QuestionRecord q =
     (case (py_getitem q ''question'', py_getitem q ''options'',
            py_getitem q ''correct_answer'', py_getitem q ''explanation'') of
        (Inr q_text, Inr (JList os), Inr correct, Inr expl) \<Rightarrow>
           is_nonempty_text q_text \<and> length os = 4 \<and> list_all is_nonempty_text os \<and>
           distinct os \<and> is_text correct \<and> length (filter (\<lambda>x. x = correct) os) = 1 \<and>
           is_text expl
      | _ \<Rightarrow> False)"

section \<open>file\_exporter.py: the table of results\<close>

text \<open>\<^verbatim>\<open>sep.join(x)\<close>: the items of \<^verbatim>\<open>x\<close> must all be strings.\<close>

fun join :: "string \<Rightarrow> string list \<Rightarrow> string" where
  "join sep [] = []"
| "join sep [x] = x"
| "join sep (x # y # ys) = x @ sep @ join sep (y # ys)"

fun str_items :: "json list \<Rightarrow> error + string list" where
  "str_items [] = Inr []"
| "str_items (JStr s # xs) =
     (case str_items xs of Inl e \<Rightarrow> Inl e | Inr ss \<Rightarrow> Inr (s # ss))"
| "str_items (_ # xs) = Inl TypeError"

fun py_join :: "string \<Rightarrow> json \<Rightarrow> error + string" where
  "py_join sep (JList xs) =
     (case str_items xs of Inl e \<Rightarrow> Inl e | Inr ss \<Rightarrow> Inr (join sep ss))"
| "py_join sep (JStr s) = Inr (join sep (map (\<lambda>c. [c]) s))"
| "py_join sep (JDict d) = Inr (join sep (map fst d))"
| "py_join sep _ = Inl TypeError"

text \<open>A row of the frame after its \<^verbatim>\<open>options\<close> column has been rewritten.\<close>

record table_row =
  row_question :: json
  row_options :: string
  row_chosen_answer :: string
  row_correct_answer :: json
  row_is_correct :: bool
  row_explanation :: json

text \<open>\<^verbatim>\<open>df['options'].apply(lambda x: "; ".join(x))\<close>, row by row.\<close>

fun join_options :: "answer_entry list \<Rightarrow> error + table_row list" where
  "join_options [] = Inr []"
| "join_options (r # rs) =
     (case py_join ''; '' (options r) of
        Inl e \<Rightarrow> Inl e
      | Inr joined \<Rightarrow>
         (case join_options rs of
            Inl e \<Rightarrow> Inl e
          | Inr rows \<Rightarrow>
             Inr (\<lparr>row_question = question r, row_options = joined,
                   row_chosen_answer = chosen_answer r,
                   row_correct_answer = correct_answer r,
                   row_is_correct = is_correct r,
                   row_explanation = explanation r\<rparr> # rows)))"

text \<open>
  \<^verbatim>\<open>export_to_csv\<close> up to the frame it hands to \<^verbatim>\<open>to_csv\<close> (the bytes that pandas
  writes for a frame are not modelled). A frame built from an empty list has no columns, so
  \<^verbatim>\<open>df['options']\<close> raises \<^verbatim>\<open>KeyError\<close>; every answer entry has the key
  \<^verbatim>\<open>options\<close>, so a frame built from a non-empty log has the column.
\<close>

definition export_to_csv :: "answer_entry list \<Rightarrow> error + table_row list" where
  "export_to_csv quiz_results =
     (if quiz_results = [] then Inl KeyError else join_options quiz_results)"

text \<open>
  An answer entry typed as the data model types it: question, correct answer and explanation
  are texts and the options are a list of texts.
\<close>

definition typed_entry :: "answer_entry \<Rightarrow> bool" where
  "typed_entry r =
     (is_text (question r) \<and>
      (case options r of JList xs \<Rightarrow> list_all is_text xs | _ \<Rightarrow> False) \<and>
      is_text (correct_answer r) \<and> is_text (explanation r))"

text \<open>
  What the table is expected to hold for an entry: the options joined by \<^verbatim>\<open>"; "\<close>, every
  other field as it is in the entry.
\<close>

fun text_of :: "json \<Rightarrow> string" where
  "text_of (JStr s) = s"
| "text_of _ = []"

definition row_of :: "answer_entry \<Rightarrow> table_row \<Rightarrow> bool" where
  "row_of r row =
     (row_question row = question r \<and>
      (case options r of
         JList xs \<Rightarrow> list_all is_text xs \<and> row_options row = join ''; '' (map text_of xs)
       | _ \<Rightarrow> False) \<and>
      row_chosen_answer row = chosen_answer r \<and>
      row_correct_answer row = correct_answer r \<and>
      row_is_correct row = is_correct r \<and>
      row_explanation row = explanation r)"

section \<open>Concrete inputs\<close>

text \<open>A model backend that answers every prompt with the given text.\<close>

definition reply_with :: "string \<Rightarrow> string \<Rightarrow> int \<Rightarrow> error + string" where
  "reply_with raw topic num_questions = Inr raw"

text \<open>
  \<^verbatim>\<open>json.loads\<close> on the texts of a table that lists the value it returns for each of them;
  on a text outside the table the parser stands for one that raises.
\<close>

definition loads_table :: "(string \<times> json) list \<Rightarrow> string \<Rightarrow> error + json" where
  "loads_table tbl s = (case map_of tbl s of None \<Rightarrow> Inl JSONDecodeError | Some v \<Rightarrow> Inr v)"

definition text_trailing_comma :: string where
  \<open>text_trailing_comma =
     ''[{"question":"Q","options":["A","B","C","D"],"correct_answer":"A","explanation":"E"},]''\<close>

definition text_one :: string where
  \<open>text_one =
     ''[{"question":"Q","options":["A","B","C","D"],"correct_answer":"A","explanation":"E"}]''\<close>

definition text_two :: string where
  \<open>text_two =
     ''[{"question":"Q","options":["A","B","C","D"],"correct_answer":"A","explanation":"E"},{"question":"Q2","options":["A","B","C","D"],"correct_answer":"B","explanation":"E2"}]''\<close>

definition text_repeated :: string where
  \<open>text_repeated =
     ''[{"question":"","options":["A","A","A","A"],"correct_answer":"A","explanation":"E"}]''\<close>

definition text_unparsable :: string where
  "text_unparsable = ''[{x}]''"

definition text_prose :: string where
  "text_prose = ''I cannot help with that.''"

text \<open>Two question records used to run the session on concrete input.\<close>

definition example_q1 :: json where
  "example_q1 = JDict [(''question'', JStr ''Q''),
     (''options'', JList [JStr ''A'', JStr ''B'', JStr ''C'', JStr ''D'']),
     (''correct_answer'', JStr ''A''), (''explanation'', JStr ''E'')]"

definition example_q2 :: json where
  "example_q2 = JDict [(''question'', JStr ''Q2''),
     (''options'', JList [JStr ''A'', JStr ''B'', JStr ''C'', JStr ''D'']),
     (''correct_answer'', JStr ''B''), (''explanation'', JStr ''E2'')]"

text \<open>A record with an empty question and four equal options.\<close>

definition example_repeated :: json where
  "example_repeated = JDict [(''question'', JStr []),
     (''options'', JList [JStr ''A'', JStr ''A'', JStr ''A'', JStr ''A'']),
     (''correct_answer'', JStr ''A''), (''explanation'', JStr ''E'')]"

text \<open>
  A record whose correct answer and first option are the \<^verbatim>\<open>NaN\<close> of the \<^verbatim>\<open>json\<close>
  module.
\<close>

definition example_nan :: json where
  "example_nan = JDict [(''question'', JStr ''Q''),
     (''options'', JList [JFloat NaN, JInt 1, JInt 2, JInt 3]),
     (''correct_answer'', JFloat NaN), (''explanation'', JStr ''E'')]"

text \<open>What \<^verbatim>\<open>json.loads\<close> returns on the example texts.\<close>

definition example_loads :: "string \<Rightarrow> error + json" where
  "example_loads =
     loads_table [(text_one, JList [example_q1]),
                  (text_two, JList [example_q1, example_q2]),
                  (text_repeated, JList [example_repeated])]"

text \<open>
  Two entries of the answer log, the second with numbers as options, and a record that lacks
  the field \<^verbatim>\<open>question\<close>.
\<close>

definition example_entry :: answer_entry where
  "example_entry = \<lparr>question = JStr ''Q'',
          options = JList [JStr ''A'', JStr ''B'', JStr ''C'', JStr ''D''],
          chosen_answer = ''A'', correct_answer = JStr ''A'', is_correct = True,
          explanation = JStr ''E''\<rparr>"

definition example_numeric_entry :: answer_entry where
  "example_numeric_entry = \<lparr>question = JStr ''Q'',
          options = JList [JInt 1, JInt 2, JInt 3, JInt 4],
          chosen_answer = ''1'', correct_answer = JInt 1, is_correct = False,
          explanation = JStr ''E''\<rparr>"

definition example_no_question :: json where
  "example_no_question = JDict [(''correct_answer'', JStr ''A'')]"


section \<open>Properties of the quiz session\<close>

lemma py_eq_JStr: "py_eq (JStr a) x = (x = JStr a)"
proof (cases x)
  case (JFloat f)
  then show ?thesis by (cases f) auto
qed auto

lemma submit_answer_effect:
  "questions (snd (submit_answer c s)) = questions s \<and>
   ((user_answers (snd (submit_answer c s)) = user_answers s \<and>
     current_question_index (snd (submit_answer c s)) = current_question_index s) \<or>
    (0 \<le> current_question_index s \<and>
     current_question_index s < int (length (questions s)) \<and>
     current_question_index (snd (submit_answer c s)) = current_question_index s + 1 \<and>
     (\<exists>e. user_answers (snd (submit_answer c s)) = user_answers s @ [e])))"
  by (auto simp: submit_answer_def Let_def get_current_question_def split: sum.splits if_splits)

lemma submit_answer_outside:
  "questions s = [] \<or> current_question_index s < 0
     \<or> current_question_index s \<ge> int (length (questions s)) \<Longrightarrow>
   submit_answer c s = (Inr (JNull, JNull), s)"
  by (auto simp: submit_answer_def Let_def get_current_question_def)

lemma submit_answer_step:
  assumes "questions s \<noteq> []"
    and "0 \<le> current_question_index s"
    and "current_question_index s < int (length (questions s))"
    and "py_getitem (questions s ! nat (current_question_index s)) ''question'' = Inr q_text"
    and "py_getitem (questions s ! nat (current_question_index s)) ''options'' = Inr q_options"
    and "py_getitem (questions s ! nat (current_question_index s)) ''correct_answer'' = Inr correct"
    and "py_getitem (questions s ! nat (current_question_index s)) ''explanation'' = Inr q_expl"
  shows "submit_answer chosen s =
     (Inr (JBool (correct = JStr chosen), q_expl),
      s\<lparr>score := score s + (if correct = JStr chosen then 1 else 0),
        user_answers := user_answers s @
          [\<lparr>question = q_text, options = q_options, chosen_answer = chosen,
            correct_answer = correct, is_correct = (correct = JStr chosen),
            explanation = q_expl\<rparr>],
        current_question_index := current_question_index s + 1\<rparr>)"
proof -
  obtain d where d: "questions s ! nat (current_question_index s) = JDict d"
    using assms(4) by (cases "questions s ! nat (current_question_index s)") auto
  have ne: "d \<noteq> []" using assms(4) d by auto
  show ?thesis
    using assms d ne
    by (auto simp: submit_answer_def Let_def get_current_question_def py_eq_JStr)
qed

lemma has_required_fields_getitem:
  assumes "has_required_fields q"
  shows "\<exists>a b c d. py_getitem q ''question'' = Inr a \<and> py_getitem q ''options'' = Inr b \<and>
           py_getitem q ''correct_answer'' = Inr c \<and> py_getitem q ''explanation'' = Inr d"
proof -
  obtain d where d: "q = JDict d" using assms by (cases q) auto
  have k: "\<And>k. k \<in> set required_fields \<Longrightarrow> \<exists>v. map_of d k = Some v"
    using assms d by (auto simp: list_all_iff dest!: weak_map_of_SomeI)
  have "\<exists>v. map_of d ''question'' = Some v" "\<exists>v. map_of d ''options'' = Some v"
       "\<exists>v. map_of d ''correct_answer'' = Some v" "\<exists>v. map_of d ''explanation'' = Some v"
    by (rule k, simp add: required_fields_def)+
  then show ?thesis using d by auto
qed

lemma submit_answer_score:
  assumes "list_all has_required_fields (questions s)"
  shows "score (snd (submit_answer c s))
           - int (length (filter is_correct (user_answers (snd (submit_answer c s)))))
       = score s - int (length (filter is_correct (user_answers s)))"
proof (cases "questions s \<noteq> [] \<and> 0 \<le> current_question_index s \<and>
              current_question_index s < int (length (questions s))")
  case True
  have "has_required_fields (questions s ! nat (current_question_index s))"
  proof -
    from True have "nat (current_question_index s) < length (questions s)" by linarith
    with assms show ?thesis by (simp add: list_all_length)
  qed
  from has_required_fields_getitem [OF this] obtain a b c' d where
    "py_getitem (questions s ! nat (current_question_index s)) ''question'' = Inr a"
    "py_getitem (questions s ! nat (current_question_index s)) ''options'' = Inr b"
    "py_getitem (questions s ! nat (current_question_index s)) ''correct_answer'' = Inr c'"
    "py_getitem (questions s ! nat (current_question_index s)) ''explanation'' = Inr d"
    by blast
  with True show ?thesis
    by (simp add: submit_answer_step [where chosen = c])
next
  case False
  then have "submit_answer c s = (Inr (JNull, JNull), s)"
    by (intro submit_answer_outside) auto
  then show ?thesis by simp
qed

lemma score_counts_correct:
  "reachable s \<Longrightarrow> list_all has_required_fields (questions s) \<Longrightarrow>
     score s = int (length (filter is_correct (user_answers s)))"
proof (induction rule: reachable.induct)
  case reachable_init
  show ?case by (simp add: QuizManager_init_def)
next
  case (reachable_load s qs)
  show ?case by (simp add: load_questions_def)
next
  case (reachable_submit s c)
  have q: "questions (snd (submit_answer c s)) = questions s"
    using submit_answer_effect [of c s] by simp
  with reachable_submit have "score s = int (length (filter is_correct (user_answers s)))"
    by simp
  with submit_answer_score [of s c] reachable_submit.prems q show ?case by simp
next
  case (reachable_reset s)
  show ?case by (simp add: reset_quiz_def)
qed

lemma example_submit:
  "submit_answer ''A'' (load_questions [example_q1, example_q2] QuizManager_init) =
     (Inr (JBool True, JStr ''E''),
      \<lparr>questions = [example_q1, example_q2], current_question_index = 1,
       user_answers = [\<lparr>question = JStr ''Q'',
          options = JList [JStr ''A'', JStr ''B'', JStr ''C'', JStr ''D''],
          chosen_answer = ''A'', correct_answer = JStr ''A'', is_correct = True,
          explanation = JStr ''E''\<rparr>],
       score = 1, quiz_started = True\<rparr>)"
  by (simp add: submit_answer_def load_questions_def QuizManager_init_def Let_def
        get_current_question_def example_q1_def example_q2_def)

lemma example_reachable:
  "reachable (snd (submit_answer ''A'' (load_questions [example_q1, example_q2] QuizManager_init)))"
  by (intro reachable_submit reachable_load reachable_init)

text \<open>
  C2: in every session reached from a new one by \<^verbatim>\<open>load_questions\<close>, \<^verbatim>\<open>submit_answer\<close>
  and \<^verbatim>\<open>reset_quiz\<close> whose loaded questions are records with the four fields,
  \<^verbatim>\<open>get_score_summary\<close> returns the number of loaded questions, the number of entries of
  the answer log whose \<^verbatim>\<open>is_correct\<close> is true (the running score equals that count), and
  their difference, also when questions are left unanswered.
\<close>

theorem get_score_summary_counts:
  assumes "reachable s" and "list_all has_required_fields (questions s)"
  shows "get_score_summary s =
     (int (length (questions s)),
      int (length (filter is_correct (user_answers s))),
      int (length (questions s)) - int (length (filter is_correct (user_answers s))))"
  using score_counts_correct [OF assms] by (simp add: get_score_summary_def Let_def)

theorem get_score_summary_counts_witness:
  "reachable (snd (submit_answer ''A'' (load_questions [example_q1, example_q2] QuizManager_init))) \<and>
   list_all has_required_fields
     (questions (snd (submit_answer ''A'' (load_questions [example_q1, example_q2] QuizManager_init)))) \<and>
   get_score_summary (snd (submit_answer ''A'' (load_questions [example_q1, example_q2] QuizManager_init)))
     = (2, 1, 1)"
proof -
  let ?s = "snd (submit_answer ''A'' (load_questions [example_q1, example_q2] QuizManager_init))"
  have w: "list_all has_required_fields (questions ?s)"
    by (simp add: example_submit) (simp add: example_q1_def example_q2_def required_fields_def)
  from get_score_summary_counts [OF example_reachable w] example_reachable w show ?thesis
    by (simp add: example_submit)
qed

text \<open>
  C3: when questions are loaded, the current index is a position of the question list and the
  current question has the four fields, \<^verbatim>\<open>submit_answer(chosen)\<close> compares \<^verbatim>\<open>chosen\<close>
  with the record's \<^verbatim>\<open>correct_answer\<close> by plain equality of strings, appends exactly one
  entry to the answer log (question, options, correct answer and explanation taken from the
  record, the chosen answer and the result of the comparison), adds one to the index, and
  returns the result of the comparison with the record's explanation.
\<close>

theorem submit_answer_records:
  assumes "questions s \<noteq> []"
    and "0 \<le> current_question_index s"
    and "current_question_index s < int (length (questions s))"
    and "py_getitem (questions s ! nat (current_question_index s)) ''question'' = Inr q_text"
    and "py_getitem (questions s ! nat (current_question_index s)) ''options'' = Inr q_options"
    and "py_getitem (questions s ! nat (current_question_index s)) ''correct_answer'' = Inr correct"
    and "py_getitem (questions s ! nat (current_question_index s)) ''explanation'' = Inr q_expl"
  shows "submit_answer chosen s =
     (Inr (JBool (correct = JStr chosen), q_expl),
      s\<lparr>score := score s + (if correct = JStr chosen then 1 else 0),
        user_answers := user_answers s @
          [\<lparr>question = q_text, options = q_options, chosen_answer = chosen,
            correct_answer = correct, is_correct = (correct = JStr chosen),
            explanation = q_expl\<rparr>],
        current_question_index := current_question_index s + 1\<rparr>)"
  using assms by (rule submit_answer_step)

theorem submit_answer_records_witness:
  "submit_answer ''a'' (load_questions [example_q1, example_q2] QuizManager_init) =
     (Inr (JBool False, JStr ''E''),
      \<lparr>questions = [example_q1, example_q2], current_question_index = 1,
       user_answers = [\<lparr>question = JStr ''Q'',
          options = JList [JStr ''A'', JStr ''B'', JStr ''C'', JStr ''D''],
          chosen_answer = ''a'', correct_answer = JStr ''A'', is_correct = False,
          explanation = JStr ''E''\<rparr>],
       score = 0, quiz_started = True\<rparr>)"
proof -
  let ?s = "load_questions [example_q1, example_q2] QuizManager_init"
  have q: "questions ?s ! nat (current_question_index ?s) = example_q1"
    by (simp add: load_questions_def)
  have "submit_answer ''a'' ?s =
     (Inr (JBool (JStr ''A'' = JStr ''a''), JStr ''E''),
      ?s\<lparr>score := score ?s + (if JStr ''A'' = JStr ''a'' then 1 else 0),
        user_answers := user_answers ?s @
          [\<lparr>question = JStr ''Q'',
            options = JList [JStr ''A'', JStr ''B'', JStr ''C'', JStr ''D''],
            chosen_answer = ''a'',
            correct_answer = JStr ''A'', is_correct = (JStr ''A'' = JStr ''a''),
            explanation = JStr ''E''\<rparr>],
        current_question_index := current_question_index ?s + 1\<rparr>)"
  proof (rule submit_answer_records)
    show "questions ?s \<noteq> []" by (simp add: load_questions_def)
    show "0 \<le> current_question_index ?s" by (simp add: load_questions_def)
    show "current_question_index ?s < int (length (questions ?s))"
      by (simp add: load_questions_def)
    show "py_getitem (questions ?s ! nat (current_question_index ?s)) ''question'' = Inr (JStr ''Q'')"
      unfolding q by (simp add: example_q1_def)
    show "py_getitem (questions ?s ! nat (current_question_index ?s)) ''options''
            = Inr (JList [JStr ''A'', JStr ''B'', JStr ''C'', JStr ''D''])"
      unfolding q by (simp add: example_q1_def)
    show "py_getitem (questions ?s ! nat (current_question_index ?s)) ''correct_answer''
            = Inr (JStr ''A'')"
      unfolding q by (simp add: example_q1_def)
    show "py_getitem (questions ?s ! nat (current_question_index ?s)) ''explanation''
            = Inr (JStr ''E'')"
      unfolding q by (simp add: example_q1_def)
  qed
  then show ?thesis by (simp add: load_questions_def QuizManager_init_def)
qed

text \<open>
  C4: when no questions are loaded, or the current index is at or past the number of
  questions, \<^verbatim>\<open>submit_answer\<close> returns the pair \<^verbatim>\<open>(None, None)\<close> without raising and
  leaves the session (questions, index, answer log and score) as it was.
\<close>

theorem submit_answer_noop:
  "questions s = [] \<or> current_question_index s \<ge> int (length (questions s)) \<Longrightarrow>
     submit_answer c s = (Inr (JNull, JNull), s)"
  by (auto simp: submit_answer_def Let_def get_current_question_def)

theorem submit_answer_noop_witness:
  "submit_answer ''B'' QuizManager_init = (Inr (JNull, JNull), QuizManager_init) \<and>
   current_question_index (snd (submit_answer ''A'' (load_questions [example_q1] QuizManager_init)))
     = int (length (questions (snd (submit_answer ''A'' (load_questions [example_q1] QuizManager_init))))) \<and>
   submit_answer ''B'' (snd (submit_answer ''A'' (load_questions [example_q1] QuizManager_init)))
     = (Inr (JNull, JNull), snd (submit_answer ''A'' (load_questions [example_q1] QuizManager_init)))"
proof -
  have a: "questions QuizManager_init = []
           \<or> current_question_index QuizManager_init \<ge> int (length (questions QuizManager_init))"
    by (simp add: QuizManager_init_def)
  let ?t = "snd (submit_answer ''A'' (load_questions [example_q1] QuizManager_init))"
  have i: "current_question_index ?t = 1" and q: "questions ?t = [example_q1]"
    by (simp_all add: submit_answer_def load_questions_def QuizManager_init_def Let_def
          get_current_question_def example_q1_def)
  have b: "questions ?t = [] \<or> current_question_index ?t \<ge> int (length (questions ?t))"
    by (simp add: i q)
  from submit_answer_noop [OF a, of "''B''"] submit_answer_noop [OF b, of "''B''"] i q
  show ?thesis by simp
qed

text \<open>
  C7: \<^verbatim>\<open>load_questions(qs)\<close> stores \<^verbatim>\<open>qs\<close>, sets the current index to 0, empties the
  answer log and the score and marks the quiz started; when \<^verbatim>\<open>qs\<close> is not empty the quiz
  is not finished and the current question is the first record, and when \<^verbatim>\<open>qs\<close> is empty
  the quiz is finished at once, with zero questions and no current question.
\<close>

theorem load_questions_starts:
  "questions (load_questions qs s) = qs \<and>
   current_question_index (load_questions qs s) = 0 \<and>
   user_answers (load_questions qs s) = [] \<and>
   score (load_questions qs s) = 0 \<and>
   quiz_started (load_questions qs s) \<and>
   (qs \<noteq> [] \<longrightarrow> \<not> is_quiz_finished (load_questions qs s) \<and>
                 get_current_question (load_questions qs s) = hd qs) \<and>
   (qs = [] \<longrightarrow> is_quiz_finished (load_questions qs s) \<and>
               length (questions (load_questions qs s)) = 0 \<and>
               get_current_question (load_questions qs s) = JNull)"
  by (cases qs) (simp_all add: load_questions_def is_quiz_finished_def get_current_question_def)

theorem load_questions_starts_witness:
  "\<not> is_quiz_finished (load_questions [example_q1, example_q2] QuizManager_init) \<and>
   get_current_question (load_questions [example_q1, example_q2] QuizManager_init) = example_q1 \<and>
   is_quiz_finished (load_questions [] QuizManager_init) \<and>
   length (questions (load_questions [] QuizManager_init)) = 0"
  using load_questions_starts [of "[example_q1, example_q2]" QuizManager_init]
        load_questions_starts [of "[]" QuizManager_init]
  by simp

text \<open>
  C10: in every session reached from a new one by any sequence of \<^verbatim>\<open>load_questions\<close>,
  \<^verbatim>\<open>submit_answer\<close> and \<^verbatim>\<open>reset_quiz\<close> calls (whatever the loaded questions are, and
  also after a call that raised), the length of the answer log equals the current index, and
  the current index is at most the number of loaded questions.
\<close>

theorem answers_match_index:
  "reachable s \<Longrightarrow>
     int (length (user_answers s)) = current_question_index s \<and>
     current_question_index s \<le> int (length (questions s))"
proof (induction rule: reachable.induct)
  case reachable_init
  show ?case by (simp add: QuizManager_init_def)
next
  case (reachable_load s qs)
  show ?case by (simp add: load_questions_def)
next
  case (reachable_submit s c)
  from submit_answer_effect [of c s] reachable_submit.IH show ?case by auto
next
  case (reachable_reset s)
  show ?case by (simp add: reset_quiz_def)
qed

theorem answers_match_index_witness:
  "reachable (snd (submit_answer ''A'' (load_questions [example_q1, example_q2] QuizManager_init))) \<and>
   int (length (user_answers
      (snd (submit_answer ''A'' (load_questions [example_q1, example_q2] QuizManager_init))))) = 1 \<and>
   current_question_index
      (snd (submit_answer ''A'' (load_questions [example_q1, example_q2] QuizManager_init))) = 1"
  using answers_match_index [OF example_reachable] example_reachable
  by (simp add: example_submit)

text \<open>
  Why C2 is about questions that have the four fields: on a record without the field
  \<^verbatim>\<open>question\<close>, \<^verbatim>\<open>submit_answer\<close> raises \<^verbatim>\<open>KeyError\<close> after it has incremented
  the score and before it appends the entry.
\<close>

lemma submit_answer_raises_after_score:
  "submit_answer ''A'' (load_questions [example_no_question] QuizManager_init) =
     (Inl KeyError,
      \<lparr>questions = [example_no_question], current_question_index = 0, user_answers = [],
       score = 1, quiz_started = True\<rparr>)"
  by (simp add: submit_answer_def load_questions_def QuizManager_init_def Let_def
        get_current_question_def example_no_question_def)

section \<open>Properties of the question provider\<close>

lemma validate_loop_filter:
  "validate_loop acc qs = acc @ filter (\<lambda>q. validate_question q = Inr True) qs"
  by (induction qs arbitrary: acc) auto

lemma all_fields_in_dict:
  "all_fields_in fs (JDict d) = Inr (list_all (\<lambda>k. k \<in> set (map fst d)) fs)"
  by (induction fs) auto

lemma validate_question_accepts:
  assumes "validate_question q = Inr True"
  shows "has_required_fields q \<and>
         (\<exists>os correct. py_getitem q ''options'' = Inr (JList os) \<and> length os = 4 \<and>
            py_getitem q ''correct_answer'' = Inr correct \<and> list_ex (\<lambda>x. py_same_or_equal x correct) os)"
proof -
  from assms obtain d where d: "q = JDict d"
    by (cases q) (auto simp: validate_question_def split: sum.splits if_splits)
  from assms d show ?thesis
    by (auto simp: validate_question_def all_fields_in_dict
          split: sum.splits if_splits json.splits option.splits)
qed

lemma generate_total:
  "llm topic n = Inr raw \<Longrightarrow> \<exists>qs. generate_quiz_questions llm loads topic n = Inr qs"
  by (simp add: generate_quiz_questions_def split: sum.splits error.splits)

lemma generate_result:
  assumes "generate_quiz_questions llm loads topic n = Inr qs"
  shows "qs = [] \<or>
    (\<exists>raw m qd len qd' items.
       llm topic n = Inr raw \<and> re_search array_pattern raw = Some m \<and>
       loads (re_sub trailing_comma_pattern '']'' m) = Inr qd \<and>
       py_len qd = Inr len \<and>
       (if len > n then py_slice_to qd n else Inr qd) = Inr qd' \<and>
       py_iter qd' = Inr items \<and>
       qs = filter (\<lambda>q. validate_question q = Inr True) items)"
  using assms
  by (auto simp: generate_quiz_questions_def parse_response_def Let_def validate_loop_filter
        split: sum.splits error.splits option.splits if_splits)

lemma py_iter_len: "py_iter x = Inr items \<Longrightarrow> py_len x = Inr (int (length items))"
  by (cases x) auto

lemma py_slice_to_len:
  "py_slice_to x n = Inr y \<Longrightarrow> 0 \<le> n \<Longrightarrow> \<exists>l. py_len y = Inr l \<and> l \<le> n"
  by (cases x) (auto simp: slice_to_def)

lemma generate_bounded:
  assumes "0 \<le> n" and "generate_quiz_questions llm loads topic n = Inr qs"
  shows "length qs \<le> nat n"
proof -
  from generate_result [OF assms(2)] show ?thesis
  proof
    assume "qs = []" then show ?thesis by simp
  next
    assume "\<exists>raw m qd len qd' items.
       llm topic n = Inr raw \<and> re_search array_pattern raw = Some m \<and>
       loads (re_sub trailing_comma_pattern '']'' m) = Inr qd \<and>
       py_len qd = Inr len \<and>
       (if len > n then py_slice_to qd n else Inr qd) = Inr qd' \<and>
       py_iter qd' = Inr items \<and>
       qs = filter (\<lambda>q. validate_question q = Inr True) items"
    then obtain qd len qd' items where
      l: "py_len qd = Inr len" and
      s: "(if len > n then py_slice_to qd n else Inr qd) = Inr qd'" and
      i: "py_iter qd' = Inr items" and
      q: "qs = filter (\<lambda>q. validate_question q = Inr True) items"
      by blast
    have "int (length items) \<le> n"
    proof (cases "len > n")
      case True
      with s have "py_slice_to qd n = Inr qd'" by simp
      from py_slice_to_len [OF this assms(1)] py_iter_len [OF i] show ?thesis by auto
    next
      case False
      with s have "qd' = qd" by simp
      with l py_iter_len [OF i] False show ?thesis by auto
    qed
    moreover have "length qs \<le> length items" unfolding q by simp
    ultimately show ?thesis by linarith
  qed
qed

lemma generate_list:
  assumes "0 \<le> n" "llm topic n = Inr raw" "re_search array_pattern raw = Some m"
    "loads (re_sub trailing_comma_pattern '']'' m) = Inr (JList items)"
  shows "generate_quiz_questions llm loads topic n =
           Inr (filter (\<lambda>q. validate_question q = Inr True) (take (nat n) items))"
  using assms
  by (auto simp: generate_quiz_questions_def parse_response_def Let_def validate_loop_filter
        slice_to_def)

lemma search_one: "re_search array_pattern text_one = Some text_one"
  by (simp add: array_pattern_def text_one_def py_isspace_def)
lemma search_two: "re_search array_pattern text_two = Some text_two"
  by (simp add: array_pattern_def text_two_def py_isspace_def)
lemma search_repeated: "re_search array_pattern text_repeated = Some text_repeated"
  by (simp add: array_pattern_def text_repeated_def py_isspace_def)
lemma search_trailing: "re_search array_pattern text_trailing_comma = None"
  by (simp add: array_pattern_def text_trailing_comma_def py_isspace_def)
lemma search_unparsable: "re_search array_pattern text_unparsable = Some text_unparsable"
  by (simp add: array_pattern_def text_unparsable_def py_isspace_def)
lemma search_prose: "re_search array_pattern text_prose = None"
  by (simp add: array_pattern_def text_prose_def py_isspace_def)

lemma sub_one: "re_sub trailing_comma_pattern '']'' text_one = text_one"
  by (simp add: trailing_comma_pattern_def text_one_def py_isspace_def)
lemma sub_two: "re_sub trailing_comma_pattern '']'' text_two = text_two"
  by (simp add: trailing_comma_pattern_def text_two_def py_isspace_def)
lemma sub_repeated: "re_sub trailing_comma_pattern '']'' text_repeated = text_repeated"
  by (simp add: trailing_comma_pattern_def text_repeated_def py_isspace_def)
lemma sub_unparsable: "re_sub trailing_comma_pattern '']'' text_unparsable = text_unparsable"
  by (simp add: trailing_comma_pattern_def text_unparsable_def py_isspace_def)

lemma loads_one: "example_loads text_one = Inr (JList [example_q1])"
  by (simp add: example_loads_def loads_table_def text_one_def text_two_def text_repeated_def)
lemma loads_two: "example_loads text_two = Inr (JList [example_q1, example_q2])"
  by (simp add: example_loads_def loads_table_def text_one_def text_two_def text_repeated_def)
lemma loads_repeated: "example_loads text_repeated = Inr (JList [example_repeated])"
  by (simp add: example_loads_def loads_table_def text_one_def text_two_def text_repeated_def)
lemma loads_unparsable: "example_loads text_unparsable = Inl JSONDecodeError"
  by (simp add: example_loads_def loads_table_def text_one_def text_two_def text_repeated_def
        text_unparsable_def)

lemma validate_q1: "validate_question example_q1 = Inr True"
  by (simp add: validate_question_def example_q1_def required_fields_def)
lemma validate_repeated: "validate_question example_repeated = Inr True"
  by (simp add: validate_question_def example_repeated_def required_fields_def)

lemma generate_one:
  "generate_quiz_questions (reply_with text_one) example_loads topic 1 = Inr [example_q1]"
  by (simp add: generate_quiz_questions_def parse_response_def reply_with_def search_one sub_one
        loads_one validate_q1)

lemma generate_repeated:
  "generate_quiz_questions (reply_with text_repeated) example_loads topic 1 = Inr [example_repeated]"
  by (simp add: generate_quiz_questions_def parse_response_def reply_with_def search_repeated
        sub_repeated loads_repeated validate_repeated)

text \<open>
  C1, as stated, fails: the reply \<^term>\<open>text_repeated\<close> parses to one record whose question
  is empty and whose four options are the same text; the record passes the three checks of
  the validation loop and is returned, although it is not a valid QuestionRecord of the data
  model.
\<close>

theorem generate_admits_repeated_options:
  "generate_quiz_questions (reply_with text_repeated) example_loads ''t'' 1 = Inr [example_repeated]
   \<and> \<not> spec_QuestionRecord example_repeated"
  by (simp add: generate_repeated) (simp add: spec_QuestionRecord_def example_repeated_def)

text \<open>
  C1, amended: every record in the sequence returned by \<^verbatim>\<open>generate_quiz_questions\<close> is
  a dictionary with the four fields, whose \<^verbatim>\<open>options\<close> is a list of exactly 4 entries and
  whose \<^verbatim>\<open>correct_answer\<close> is found in \<^verbatim>\<open>options\<close> by Python's \<^verbatim>\<open>in\<close>: it is
  identical or equal to at least one entry. These are the three checks of the validation loop;
  the code checks neither that the texts are non-empty nor that the options are distinct
  strings.
\<close>

theorem generated_records_validated:
  assumes "generate_quiz_questions llm loads topic n = Inr qs" and "q \<in> set qs"
  shows "has_required_fields q \<and>
         (\<exists>os correct. py_getitem q ''options'' = Inr (JList os) \<and> length os = 4 \<and>
            py_getitem q ''correct_answer'' = Inr correct \<and> list_ex (\<lambda>x. py_same_or_equal x correct) os)"
proof -
  from generate_result [OF assms(1)] assms(2) have "validate_question q = Inr True" by auto
  then show ?thesis by (rule validate_question_accepts)
qed

theorem generated_records_validated_witness:
  "generate_quiz_questions (reply_with text_one) example_loads ''t'' 1 = Inr [example_q1] \<and>
   example_q1 \<in> set [example_q1] \<and>
   has_required_fields example_q1 \<and>
   (\<exists>os correct. py_getitem example_q1 ''options'' = Inr (JList os) \<and> length os = 4 \<and>
       py_getitem example_q1 ''correct_answer'' = Inr correct \<and> list_ex (\<lambda>x. py_same_or_equal x correct) os)"
proof -
  have g: "generate_quiz_questions (reply_with text_one) example_loads ''t'' 1 = Inr [example_q1]"
    by (rule generate_one)
  have m: "example_q1 \<in> set [example_q1]" by simp
  from generated_records_validated [OF g m] g m show ?thesis by blast
qed

text \<open>
  Why the amended C1 says \<^verbatim>\<open>in\<close> and not \<^verbatim>\<open>==\<close>: a record whose correct answer is
  \<^verbatim>\<open>NaN\<close> passes the validation when \<^verbatim>\<open>NaN\<close> is among its options, although
  \<^verbatim>\<open>NaN\<close> is \<^verbatim>\<open>==\<close> to none of them.
\<close>

lemma validate_nan:
  "validate_question example_nan = Inr True \<and>
   \<not> list_ex (\<lambda>x. py_eq x (JFloat NaN)) [JFloat NaN, JInt 1, JInt 2, JInt 3]"
  by (simp add: validate_question_def example_nan_def required_fields_def)

text \<open>
  C5: for every topic, every requested count \<^term>\<open>n \<ge> 1\<close> and every text the model
  returns, \<^verbatim>\<open>generate_quiz_questions\<close> returns a sequence of at most \<^term>\<open>n\<close> records;
  when the extracted text parses to a list, the result is made of the validated records among
  the first \<^term>\<open>n\<close> parsed ones, in parse order: a longer list is cut to its first
  \<^term>\<open>n\<close> records and a shorter one is never padded.
\<close>

theorem generate_length:
  assumes "1 \<le> n" and "llm topic n = Inr raw"
  shows "\<exists>qs. generate_quiz_questions llm loads topic n = Inr qs \<and> length qs \<le> nat n \<and>
           (\<forall>m items. re_search array_pattern raw = Some m \<longrightarrow>
               loads (re_sub trailing_comma_pattern '']'' m) = Inr (JList items) \<longrightarrow>
               qs = filter (\<lambda>q. validate_question q = Inr True) (take (nat n) items))"
proof -
  obtain qs where qs: "generate_quiz_questions llm loads topic n = Inr qs"
    using generate_total [where llm = llm and topic = topic and n = n, OF assms(2)] by blast
  from assms have n: "0 \<le> n" by simp
  have "length qs \<le> nat n" using generate_bounded [OF n qs] .
  moreover have "\<forall>m items. re_search array_pattern raw = Some m \<longrightarrow>
               loads (re_sub trailing_comma_pattern '']'' m) = Inr (JList items) \<longrightarrow>
               qs = filter (\<lambda>q. validate_question q = Inr True) (take (nat n) items)"
    using generate_list [where llm = llm and topic = topic and loads = loads, OF n assms(2)] qs by auto
  ultimately show ?thesis using qs by blast
qed

theorem generate_length_witness:
  "(1::int) \<le> 1 \<and>
   reply_with text_two ''t'' 1 = Inr text_two \<and>
   re_search array_pattern text_two = Some text_two \<and>
   example_loads (re_sub trailing_comma_pattern '']'' text_two) = Inr (JList [example_q1, example_q2]) \<and>
   generate_quiz_questions (reply_with text_two) example_loads ''t'' 1 = Inr [example_q1]"
proof -
  have h: "(1::int) \<le> 1" by simp
  have r: "reply_with text_two ''t'' 1 = Inr text_two" by (simp add: reply_with_def)
  have l: "example_loads (re_sub trailing_comma_pattern '']'' text_two)
             = Inr (JList [example_q1, example_q2])"
    by (simp add: sub_two loads_two)
  from generate_length [where llm = "reply_with text_two" and topic = "''t''" and n = 1
         and loads = example_loads, OF h r]
  obtain qs where
    "generate_quiz_questions (reply_with text_two) example_loads ''t'' 1 = Inr qs"
    "qs = filter (\<lambda>q. validate_question q = Inr True) (take (nat 1) [example_q1, example_q2])"
    using search_two l by blast
  then have "generate_quiz_questions (reply_with text_two) example_loads ''t'' 1 = Inr [example_q1]"
    by (simp add: validate_q1)
  with h r search_two l show ?thesis by simp
qed

text \<open>
  For every text the model returns, \<^verbatim>\<open>generate_quiz_questions\<close> returns a sequence and
  does not raise; it returns the empty sequence when no JSON array is found in the text and
  when \<^verbatim>\<open>json.loads\<close> raises on the extracted text.
\<close>

lemma generate_returns_on_text:
  assumes "llm topic n = Inr raw"
  shows "(\<exists>qs. generate_quiz_questions llm loads topic n = Inr qs) \<and>
   (re_search array_pattern raw = None \<longrightarrow>
      generate_quiz_questions llm loads topic n = Inr []) \<and>
   (\<forall>m e. re_search array_pattern raw = Some m \<longrightarrow>
      loads (re_sub trailing_comma_pattern '']'' m) = Inl e \<longrightarrow>
      generate_quiz_questions llm loads topic n = Inr [])"
  using assms
  by (auto simp: generate_quiz_questions_def parse_response_def Let_def
        split: sum.splits error.splits option.splits)

lemma generate_returns_on_text_examples:
  "generate_quiz_questions (reply_with text_prose) example_loads ''t'' 3 = Inr [] \<and>
   generate_quiz_questions (reply_with text_unparsable) example_loads ''t'' 3 = Inr []"
proof -
  have a: "reply_with text_prose ''t'' 3 = Inr text_prose"
    and b: "reply_with text_unparsable ''t'' 3 = Inr text_unparsable"
    by (simp_all add: reply_with_def)
  have c: "example_loads (re_sub trailing_comma_pattern '']'' text_unparsable) = Inl JSONDecodeError"
    by (simp add: sub_unparsable loads_unparsable)
  from generate_returns_on_text [where llm = "reply_with text_prose" and topic = "''t''"
         and n = 3 and loads = example_loads, OF a]
       generate_returns_on_text [where llm = "reply_with text_unparsable" and topic = "''t''"
         and n = 3 and loads = example_loads, OF b]
       c search_prose search_unparsable
  show ?thesis by simp
qed


lemma sub_trailing: "re_sub trailing_comma_pattern '']'' text_trailing_comma = text_one"
  by (simp add: trailing_comma_pattern_def text_trailing_comma_def text_one_def py_isspace_def)

text \<open>
  C8: the text of the claim, a JSON array with a comma before its closing bracket. The
  extraction pattern requires the array to end with a closing brace, optional whitespace and
  the bracket, so \<^verbatim>\<open>re.search\<close> finds no match in this text and
  \<^verbatim>\<open>generate_quiz_questions\<close> returns the empty list, whatever \<^verbatim>\<open>json.loads\<close> and the
  requested count are. The repair is never applied to it; applied to this text it would give
  \<^term>\<open>text_one\<close>, the array without the comma.
\<close>

theorem trailing_comma_not_repaired:
  "re_search array_pattern text_trailing_comma = None \<and>
   generate_quiz_questions (reply_with text_trailing_comma) loads topic n = Inr [] \<and>
   re_sub trailing_comma_pattern '']'' text_trailing_comma = text_one"
  by (simp add: generate_quiz_questions_def parse_response_def reply_with_def search_trailing
        sub_trailing)

section \<open>Properties of the table of results\<close>

lemma str_items_texts: "list_all is_text xs \<Longrightarrow> str_items xs = Inr (map text_of xs)"
proof (induction xs)
  case Nil
  show ?case by simp
next
  case (Cons x xs)
  from Cons.prems obtain t where "x = JStr t" by (cases x) auto
  with Cons show ?case by simp
qed

lemma join_options_rows:
  "list_all typed_entry rs \<Longrightarrow>
     \<exists>rows. join_options rs = Inr rows \<and> list_all2 row_of rs rows"
proof (induction rs)
  case Nil
  show ?case by simp
next
  case (Cons r rs)
  then obtain rows where rows: "join_options rs = Inr rows" "list_all2 row_of rs rows"
    by auto
  from Cons.prems obtain xs where xs: "options r = JList xs" "list_all is_text xs"
    by (auto simp: typed_entry_def split: json.splits)
  have "join_options (r # rs) =
          Inr (\<lparr>row_question = question r, row_options = join ''; '' (map text_of xs),
                row_chosen_answer = chosen_answer r,
                row_correct_answer = correct_answer r,
                row_is_correct = is_correct r,
                row_explanation = explanation r\<rparr> # rows)"
    by (simp add: rows xs str_items_texts)
  moreover have "row_of r \<lparr>row_question = question r,
                row_options = join ''; '' (map text_of xs),
                row_chosen_answer = chosen_answer r,
                row_correct_answer = correct_answer r,
                row_is_correct = is_correct r,
                row_explanation = explanation r\<rparr>"
    using xs by (simp add: row_of_def)
  ultimately show ?case using rows(2) by simp
qed

lemma export_example:
  "export_to_csv [example_entry] =
     Inr [\<lparr>row_question = JStr ''Q'', row_options = ''A; B; C; D'',
           row_chosen_answer = ''A'', row_correct_answer = JStr ''A'',
           row_is_correct = True, row_explanation = JStr ''E''\<rparr>]"
  by (simp add: export_to_csv_def example_entry_def)

text \<open>
  C9: the claim is about every answer log, so the empty log should give a table without rows.
  The frame built from the empty log has no \<^verbatim>\<open>options\<close> column, and
  \<^verbatim>\<open>export_to_csv\<close> raises \<^verbatim>\<open>KeyError\<close> on it; the loop of \<^verbatim>\<open>export_to_docx\<close>
  accepts the empty log.
\<close>

theorem export_to_csv_empty: "export_to_csv [] = Inl KeyError"
  by (simp add: export_to_csv_def)

text \<open>
  On a non-empty answer log whose entries are texts and lists of texts the table is the one
  the claim describes: one row per entry, in log order, the options joined with
  \<^verbatim>\<open>"; "\<close>, every other field the entry's.
\<close>

lemma export_to_csv_rows:
  assumes "quiz_results \<noteq> []" and "list_all typed_entry quiz_results"
  shows "\<exists>rows. export_to_csv quiz_results = Inr rows \<and>
           length rows = length quiz_results \<and> list_all2 row_of quiz_results rows"
proof -
  from join_options_rows [OF assms(2)] obtain rows where
    rows: "join_options quiz_results = Inr rows" "list_all2 row_of quiz_results rows"
    by blast
  from rows(2) have "length rows = length quiz_results"
    by (simp add: list_all2_lengthD)
  with rows assms(1) show ?thesis by (simp add: export_to_csv_def)
qed

lemma export_to_csv_rows_example:
  "[example_entry] \<noteq> [] \<and> list_all typed_entry [example_entry] \<and>
   (\<exists>rows. export_to_csv [example_entry] = Inr rows \<and>
      length rows = length [example_entry] \<and> list_all2 row_of [example_entry] rows) \<and>
   export_to_csv [example_entry] =
     Inr [\<lparr>row_question = JStr ''Q'', row_options = ''A; B; C; D'',
           row_chosen_answer = ''A'', row_correct_answer = JStr ''A'',
           row_is_correct = True, row_explanation = JStr ''E''\<rparr>]"
proof -
  have n: "[example_entry] \<noteq> []" by simp
  have t: "list_all typed_entry [example_entry]"
    by (simp add: typed_entry_def example_entry_def)
  from export_to_csv_rows [OF n t] n t export_example show ?thesis by blast
qed

text \<open>
  An entry whose options are numbers (the validation loop admits such a record) makes
  \<^verbatim>\<open>join\<close> raise \<^verbatim>\<open>TypeError\<close>.
\<close>

lemma export_to_csv_numeric_options:
  "export_to_csv [example_numeric_entry] = Inl TypeError"
  by (simp add: export_to_csv_def example_numeric_entry_def)

end
